theory Spec2Isabelle
  imports Complex_Main
begin

chapter \<open>Model of the source\<close>

section \<open>Platform values shared by the handlers\<close>

text \<open>
  A JavaScript \<open>Date\<close> is its time value: milliseconds since the epoch, or NaN for an
  invalid date. \<open>None\<close> is the invalid date. The \<open>Date\<close> constructor on a string belongs
  to the platform, so every handler that calls it takes it as the parameter \<open>mkDate\<close>;
  \<open>new Date()\<close> is the parameter \<open>now\<close> (one clock reading per request) and \<open>uuidv4()\<close>
  the parameter \<open>new_id\<close>.
\<close>

type_synonym jsdate = "int option"

text \<open>An Express response: \<open>res.status(n).json({message})\<close>, \<open>res.status(n).json(entity)\<close>,
  \<open>res.status(n).send()\<close>. Accents of the Spanish messages are dropped.\<close>

datatype 'a Response = Message nat string | Json nat 'a | Empty nat

fun status_code :: "'a Response \<Rightarrow> nat" where
  "status_code (Message n m) = n"
| "status_code (Json n x) = n"
| "status_code (Empty n) = n"

text \<open>\<open>!x\<close> on a body field that is a string or absent: absent and the empty string are falsy.\<close>

fun truthy :: "string option \<Rightarrow> bool" where
  "truthy None = False"
| "truthy (Some s) = (s \<noteq> [])"

text \<open>\<open>Array.prototype.findIndex\<close>; \<open>None\<close> is the result -1.\<close>

fun findIndex :: "('a \<Rightarrow> bool) \<Rightarrow> 'a list \<Rightarrow> nat option" where
  "findIndex P [] = None"
| "findIndex P (x # xs) = (if P x then Some 0 else map_option Suc (findIndex P xs))"

text \<open>\<open>xs.splice(i, 1)\<close>.\<close>

definition splice1 :: "nat \<Rightarrow> 'a list \<Rightarrow> 'a list" where
  "splice1 i xs = take i xs @ drop (Suc i) xs"

section \<open>Appointments: \<open>controllers/appointments.controller.ts\<close>\<close>

datatype AppointmentStatus = SCHEDULED | COMPLETED | CANCELLED | NO_SHOW

record Appointment =
  appt_id :: string
  user_id :: string
  stylist_id :: string
  style_id :: string
  appointment_date :: jsdate
  status :: AppointmentStatus
  appt_notes :: "string option"
  created_at :: jsdate
  updated_at :: jsdate

text \<open>The string values of the enum, and \<open>Object.values(AppointmentStatus).includes(s)\<close> as
  \<open>status_of_string s \<noteq> None\<close>.\<close>

definition status_of_string :: "string \<Rightarrow> AppointmentStatus option" where
  "status_of_string s =
     (if s = ''SCHEDULED'' then Some SCHEDULED
      else if s = ''COMPLETED'' then Some COMPLETED
      else if s = ''CANCELLED'' then Some CANCELLED
      else if s = ''NO_SHOW'' then Some NO_SHOW
      else None)"

text \<open>The in-memory array at module load; the three ids come from \<open>uuidv4()\<close>.\<close>

definition initialAppointments ::
  "(string \<Rightarrow> jsdate) \<Rightarrow> string \<Rightarrow> string \<Rightarrow> string \<Rightarrow> Appointment list" where
  "initialAppointments mkDate id1 id2 id3 =
     [ \<lparr> appt_id = id1, user_id = ''user-1'', stylist_id = ''stylist-1'', style_id = ''style-1'',
         appointment_date = mkDate ''2024-07-15T10:00:00'', status = SCHEDULED,
         appt_notes = Some ''Primera cita, cliente quiere Box Braids largas'',
         created_at = mkDate ''2024-07-01'', updated_at = mkDate ''2024-07-01'' \<rparr>,
       \<lparr> appt_id = id2, user_id = ''user-2'', stylist_id = ''stylist-2'', style_id = ''style-2'',
         appointment_date = mkDate ''2024-07-10T14:30:00'', status = COMPLETED,
         appt_notes = Some ''Cliente regular, satisfecha con el resultado'',
         created_at = mkDate ''2024-06-25'', updated_at = mkDate ''2024-07-10'' \<rparr>,
       \<lparr> appt_id = id3, user_id = ''user-3'', stylist_id = ''stylist-1'', style_id = ''style-3'',
         appointment_date = mkDate ''2024-07-20T11:00:00'', status = CANCELLED,
         appt_notes = Some ''Cliente cancelo por motivos personales'',
         created_at = mkDate ''2024-07-05'', updated_at = mkDate ''2024-07-18'' \<rparr> ]"

text \<open>The body of \<open>POST /api/appointments\<close>; an absent field is \<open>None\<close>.\<close>

record CreateAppointmentBody =
  cab_user_id :: "string option"
  cab_stylist_id :: "string option"
  cab_style_id :: "string option"
  cab_appointment_date :: "string option"
  cab_notes :: "string option"

text \<open>The predicate of the availability lookup:
  \<open>a.stylist_id === stylist_id && a.appointment_date.getTime() === t && a.status === SCHEDULED\<close>.
  The candidate time \<open>t\<close> is a valid time value, so equality of time values is equality
  with \<open>Some t\<close>.\<close>

definition conflicts_with :: "string \<Rightarrow> int \<Rightarrow> Appointment \<Rightarrow> bool" where
  "conflicts_with sid t a =
     (stylist_id a = sid \<and> appointment_date a = Some t \<and> status a = SCHEDULED)"

definition createAppointment ::
  "(string \<Rightarrow> jsdate) \<Rightarrow> int \<Rightarrow> string \<Rightarrow> CreateAppointmentBody \<Rightarrow> Appointment list
     \<Rightarrow> Appointment Response \<times> Appointment list" where
  "createAppointment mkDate now new_id body appointments =
     (if \<not> truthy (cab_user_id body) \<or> \<not> truthy (cab_stylist_id body)
         \<or> \<not> truthy (cab_style_id body) \<or> \<not> truthy (cab_appointment_date body)
      then (Message 400
              ''Faltan campos requeridos: user_id, stylist_id, style_id, appointment_date'',
            appointments)
      else
        (case (cab_user_id body, cab_stylist_id body, cab_style_id body,
               cab_appointment_date body) of
           (Some uid, Some sid, Some stid, Some ds) \<Rightarrow>
             (case mkDate ds of
                None \<Rightarrow> (Message 400 ''Formato de fecha invalido'', appointments)
              | Some t \<Rightarrow>
                  if t \<le> now
                  then (Message 400 ''La fecha de la cita debe ser futura'', appointments)
                  else
                    (case find (conflicts_with sid t) appointments of
                       Some conflictingAppointment \<Rightarrow>
                         (Message 409
                            ''La estilista ya tiene una cita programada en esa fecha y hora'',
                          appointments)
                     | None \<Rightarrow>
                         (let newAppointment =
                                \<lparr> appt_id = new_id, user_id = uid, stylist_id = sid,
                                  style_id = stid, appointment_date = Some t,
                                  status = SCHEDULED,
                                  appt_notes = Some (if truthy (cab_notes body)
                                                then (case cab_notes body of Some n \<Rightarrow> n
                                                      | None \<Rightarrow> [])
                                                else []),
                                  created_at = Some now, updated_at = Some now \<rparr>
                          in (Json 201 newAppointment, appointments @ [newAppointment]))))
         | _ \<Rightarrow>
             (Message 400
                ''Faltan campos requeridos: user_id, stylist_id, style_id, appointment_date'',
              appointments)))"

text \<open>The body of \<open>PUT /api/appointments/:id\<close>. The status is the raw string of the body.\<close>

record UpdateAppointmentBody =
  uab_appointment_date :: "string option"
  uab_status :: "string option"
  uab_notes :: "string option"

definition updateAppointment ::
  "(string \<Rightarrow> jsdate) \<Rightarrow> int \<Rightarrow> string \<Rightarrow> UpdateAppointmentBody \<Rightarrow> Appointment list
     \<Rightarrow> Appointment Response \<times> Appointment list" where
  "updateAppointment mkDate now ident body appointments =
     (case findIndex (\<lambda>a. appt_id a = ident) appointments of
        None \<Rightarrow> (Message 404 ''Cita no encontrada'', appointments)
      | Some appointmentIndex \<Rightarrow>
          (let currentAppointment = appointments ! appointmentIndex;
               appointmentDateTime =
                 (if truthy (uab_appointment_date body)
                  then (case uab_appointment_date body of Some ds \<Rightarrow> mkDate ds | None \<Rightarrow> None)
                  else None)
           in
             if truthy (uab_appointment_date body) \<and> appointmentDateTime = None
             then (Message 400 ''Formato de fecha invalido'', appointments)
             else if truthy (uab_appointment_date body)
                     \<and> (case appointmentDateTime of Some t \<Rightarrow> t \<le> now | None \<Rightarrow> False)
                     \<and> uab_status body \<noteq> Some ''COMPLETED''
             then (Message 400 ''La fecha de la cita debe ser futura'', appointments)
             else if truthy (uab_status body)
                     \<and> (case uab_status body of Some s \<Rightarrow> status_of_string s = None
                         | None \<Rightarrow> False)
             then (Message 400
                     ''Estado invalido. Debe ser uno de: SCHEDULED, COMPLETED, CANCELLED, NO_SHOW'',
                   appointments)
             else
               (let updatedAppointment = currentAppointment
                      \<lparr> appointment_date :=
                          (case appointmentDateTime of Some t \<Rightarrow> Some t
                           | None \<Rightarrow> appointment_date currentAppointment),
                        status :=
                          (case uab_status body of
                             Some s \<Rightarrow> (case status_of_string s of Some st \<Rightarrow> st
                                        | None \<Rightarrow> status currentAppointment)
                           | None \<Rightarrow> status currentAppointment),
                        appt_notes :=
                          (case uab_notes body of Some n \<Rightarrow> Some n
                           | None \<Rightarrow> appt_notes currentAppointment),
                        updated_at := Some now \<rparr>
                in (Json 200 updatedAppointment,
                    appointments[appointmentIndex := updatedAppointment]))))"

definition deleteAppointment ::
  "string \<Rightarrow> Appointment list \<Rightarrow> Appointment Response \<times> Appointment list" where
  "deleteAppointment ident appointments =
     (case findIndex (\<lambda>a. appt_id a = ident) appointments of
        None \<Rightarrow> (Message 404 ''Cita no encontrada'', appointments)
      | Some appointmentIndex \<Rightarrow> (Empty 204, splice1 appointmentIndex appointments))"

text \<open>A request to the appointment routes, and the store after a sequence of requests.\<close>

datatype AppointmentRequest =
    PostAppointment int string CreateAppointmentBody
  | PutAppointment int string UpdateAppointmentBody
  | DeleteAppointment string

fun handle :: "(string \<Rightarrow> jsdate) \<Rightarrow> AppointmentRequest \<Rightarrow> Appointment list
     \<Rightarrow> Appointment Response \<times> Appointment list" where
  "handle mkDate (PostAppointment now new_id body) apps = createAppointment mkDate now new_id body apps"
| "handle mkDate (PutAppointment now ident body) apps = updateAppointment mkDate now ident body apps"
| "handle mkDate (DeleteAppointment ident) apps = deleteAppointment ident apps"

fun serve :: "(string \<Rightarrow> jsdate) \<Rightarrow> AppointmentRequest list \<Rightarrow> Appointment list \<Rightarrow> Appointment list" where
  "serve mkDate [] apps = apps"
| "serve mkDate (r # rs) apps = serve mkDate rs (snd (handle mkDate r apps))"

text \<open>The invariant of the data model: at most one \<open>SCHEDULED\<close> appointment per
  (stylist, exact date-time) pair.\<close>

definition scheduled_slots :: "Appointment list \<Rightarrow> (string \<times> jsdate) list" where
  "scheduled_slots apps =
     map (\<lambda>a. (stylist_id a, appointment_date a)) (filter (\<lambda>a. status a = SCHEDULED) apps)"

definition one_scheduled_per_slot :: "Appointment list \<Rightarrow> bool" where
  "one_scheduled_per_slot apps = distinct (scheduled_slots apps)"

text \<open>The \<open>Date\<close> constructor of a server whose local zone is UTC, on the literals used in
  the examples below (a string without a zone is local time); any other string is taken
  as invalid here.\<close>

definition Date_utc :: "string \<Rightarrow> jsdate" where
  "Date_utc s =
     (if s = ''2024-07-15T10:00:00'' then Some 1721037600000
      else if s = ''2024-07-10T14:30:00'' then Some 1720621800000
      else if s = ''2024-07-20T11:00:00'' then Some 1721473200000
      else if s = ''2024-07-01'' then Some 1719792000000
      else if s = ''2024-06-25'' then Some 1719273600000
      else if s = ''2024-07-10'' then Some 1720569600000
      else if s = ''2024-07-05'' then Some 1720137600000
      else if s = ''2024-07-18'' then Some 1721260800000
      else if s = ''2025-03-10T10:00:00'' then Some 1741600800000
      else if s = ''2025-03-11T10:00:00'' then Some 1741687200000
      else None)"

text \<open>Bodies of the example requests.\<close>

definition booking_body :: "string \<Rightarrow> string \<Rightarrow> CreateAppointmentBody" where
  "booking_body sid ds =
     \<lparr> cab_user_id = Some ''user-9'', cab_stylist_id = Some sid,
       cab_style_id = Some ''style-1'', cab_appointment_date = Some ds,
       cab_notes = None \<rparr>"

definition move_body :: "string \<Rightarrow> UpdateAppointmentBody" where
  "move_body ds = \<lparr> uab_appointment_date = Some ds, uab_status = None, uab_notes = None \<rparr>"

text \<open>Three requests received at 2025-03-01T09:00:00Z: book stylist-1 on 10 March at 10:00,
  book stylist-1 on 11 March at 10:00, then move the second booking to 10 March at 10:00.\<close>

definition double_booking :: "AppointmentRequest list" where
  "double_booking =
     [ PostAppointment 1740819600000 ''a4'' (booking_body ''stylist-1'' ''2025-03-10T10:00:00''),
       PostAppointment 1740819600000 ''a5'' (booking_body ''stylist-1'' ''2025-03-11T10:00:00''),
       PutAppointment 1740819600000 ''a5'' (move_body ''2025-03-10T10:00:00'') ]"

section \<open>Numbers and strings of the platform\<close>

text \<open>
  A JavaScript number is modelled by the decimal value it is written with in the JSON
  body: a rational, with exact \<open>+\<close>, \<open>*\<close>, \<open>/\<close> and comparison. The rounding of
  IEEE doubles in the last bit is outside this model.
\<close>

type_synonym number = rat

definition is_integer :: "number \<Rightarrow> bool" where
  "is_integer x = (of_int \<lfloor>x\<rfloor> = x)"

text \<open>\<open>Number.prototype.toString\<close> on a non-negative integer.\<close>

definition digit_char :: "nat \<Rightarrow> char" where
  "digit_char d =
     (if d = 0 then CHR ''0'' else if d = 1 then CHR ''1'' else if d = 2 then CHR ''2''
      else if d = 3 then CHR ''3'' else if d = 4 then CHR ''4'' else if d = 5 then CHR ''5''
      else if d = 6 then CHR ''6'' else if d = 7 then CHR ''7'' else if d = 8 then CHR ''8''
      else CHR ''9'')"

function show_nat :: "nat \<Rightarrow> string" where
  "show_nat n = (if n < 10 then [digit_char n] else show_nat (n div 10) @ [digit_char (n mod 10)])"
  by pat_completeness auto
termination
  by (relation "measure id") auto

declare show_nat.simps [simp del]

text \<open>\<open>Array.prototype.join\<close>, \<open>String.prototype.split\<close> on one character and
  \<open>String.prototype.trim\<close> on ASCII white space.\<close>

fun join :: "string \<Rightarrow> string list \<Rightarrow> string" where
  "join sep [] = []"
| "join sep [x] = x"
| "join sep (x # y # zs) = x @ sep @ join sep (y # zs)"

fun split_on :: "char \<Rightarrow> string \<Rightarrow> string list" where
  "split_on c [] = [[]]"
| "split_on c (x # xs) =
     (if x = c then [] # split_on c xs
      else (case split_on c xs of w # ws \<Rightarrow> (x # w) # ws | [] \<Rightarrow> [[x]]))"

definition is_space :: "char \<Rightarrow> bool" where
  "is_space c = (c = CHR '' '' \<or> c = CHR 0x09 \<or> c = CHR 0x0A \<or> c = CHR 0x0B
                 \<or> c = CHR 0x0C \<or> c = CHR 0x0D)"

definition trim :: "string \<Rightarrow> string" where
  "trim s = rev (dropWhile is_space (rev (dropWhile is_space s)))"

section \<open>Validation middleware: \<open>middleware/validation.middleware.ts\<close>\<close>

text \<open>A zod issue: the path (object keys and array indices), the message, the code and
  the optional \<open>received\<close> entry.\<close>

datatype PathSegment = Key string | Index nat

record ZodIssue =
  issue_path :: "PathSegment list"
  issue_message :: string
  issue_code :: string
  issue_received :: "string option"

text \<open>What \<open>schema.parse(data)\<close> does: it returns the normalized value, throws a
  \<open>ZodError\<close> (which carries at least one issue), or throws something else.\<close>

datatype 'v ParseResult = Parsed 'v | ZodError ZodIssue "ZodIssue list" | OtherError

definition parse_result :: "ZodIssue list \<Rightarrow> 'v \<Rightarrow> 'v ParseResult" where
  "parse_result issues v = (case issues of [] \<Rightarrow> Parsed v | i # rest \<Rightarrow> ZodError i rest)"

record ValidationError =
  field :: string
  message :: string
  code :: string
  received :: "string option"

fun segment_string :: "PathSegment \<Rightarrow> string" where
  "segment_string (Key k) = k"
| "segment_string (Index i) = show_nat i"

definition formatZodError :: "ZodIssue list \<Rightarrow> ValidationError list" where
  "formatZodError errs =
     map (\<lambda>err. \<lparr> field = join ''.'' (map segment_string (issue_path err)),
                   message = issue_message err,
                   code = issue_code err,
                   received = issue_received err \<rparr>) errs"

text \<open>The JSON body of an error response:
  \<open>{ success: false, message, error?, errors?, timestamp? }\<close>. The timestamp is the time
  value of \<open>new Date()\<close>; its ISO rendering is not modelled.\<close>

record ErrorEnvelope =
  env_success :: bool
  env_message :: string
  env_error :: "string option"
  env_errors :: "ValidationError list option"
  env_timestamp :: "int option"

text \<open>A request as the middlewares see it, and what a middleware does: it calls
  \<open>next()\<close> on the (mutated) request or it sends a response.\<close>

datatype UserRole = CUSTOMER | ADMIN

record JWTPayload =
  userId :: string
  jwt_email :: string
  jwt_role :: UserRole

record ('b, 'p, 'q) Request =
  req_authorization :: "string option"
  req_body :: 'b
  req_params :: 'p
  req_query :: "string \<rightharpoonup> 'q"
  req_user :: "JWTPayload option"

datatype 'r Step = Next 'r | Respond nat ErrorEnvelope

definition validation_failed :: "int \<Rightarrow> ValidationError list \<Rightarrow> ErrorEnvelope" where
  "validation_failed now errs =
     \<lparr> env_success = False,
       env_message = ''Errores de validacion en los datos proporcionados'',
       env_error = None, env_errors = Some errs, env_timestamp = Some now \<rparr>"

definition validation_crashed :: "int \<Rightarrow> ErrorEnvelope" where
  "validation_crashed now =
     \<lparr> env_success = False, env_message = ''Error interno de validacion'',
       env_error = None, env_errors = None, env_timestamp = Some now \<rparr>"

text \<open>\<open>validate(schema, target)\<close>, one definition per target since the targets have
  different types: \<open>validateBody\<close>, \<open>validateParams\<close>, \<open>validateQuery\<close>.\<close>

definition validateBody ::
  "('b \<Rightarrow> 'b ParseResult) \<Rightarrow> int \<Rightarrow> ('b, 'p, 'q) Request \<Rightarrow> ('b, 'p, 'q) Request Step" where
  "validateBody schema now req =
     (case schema (req_body req) of
        Parsed validatedData \<Rightarrow> Next (req \<lparr> req_body := validatedData \<rparr>)
      | ZodError i rest \<Rightarrow> Respond 400 (validation_failed now (formatZodError (i # rest)))
      | OtherError \<Rightarrow> Respond 500 (validation_crashed now))"

definition validateParams ::
  "('p \<Rightarrow> 'p ParseResult) \<Rightarrow> int \<Rightarrow> ('b, 'p, 'q) Request \<Rightarrow> ('b, 'p, 'q) Request Step" where
  "validateParams schema now req =
     (case schema (req_params req) of
        Parsed validatedData \<Rightarrow> Next (req \<lparr> req_params := validatedData \<rparr>)
      | ZodError i rest \<Rightarrow> Respond 400 (validation_failed now (formatZodError (i # rest)))
      | OtherError \<Rightarrow> Respond 500 (validation_crashed now))"

definition validateQuery ::
  "((string \<rightharpoonup> 'q) \<Rightarrow> (string \<rightharpoonup> 'q) ParseResult) \<Rightarrow> int \<Rightarrow> ('b, 'p, 'q) Request
     \<Rightarrow> ('b, 'p, 'q) Request Step" where
  "validateQuery schema now req =
     (case schema (req_query req) of
        Parsed validatedData \<Rightarrow> Next (req \<lparr> req_query := req_query req ++ validatedData \<rparr>)
      | ZodError i rest \<Rightarrow> Respond 400 (validation_failed now (formatZodError (i # rest)))
      | OtherError \<Rightarrow> Respond 500 (validation_crashed now))"






section \<open>Authentication: \<open>middleware/auth.middleware.ts\<close>\<close>

text \<open>\<open>authenticateToken\<close> (alias \<open>requireAuth\<close>). \<open>jwt.verify\<close> belongs to a library: it
  is the parameter \<open>verify\<close>, giving the name of the error or the decoded payload.\<close>

definition bearer_token :: "string option \<Rightarrow> string option" where
  "bearer_token authHeader =
     (if truthy authHeader
      then (case authHeader of
              Some h \<Rightarrow> (case split_on CHR '' '' h of _ # t # _ \<Rightarrow> Some t | _ \<Rightarrow> None)
            | None \<Rightarrow> None)
      else None)"

definition requireAuth ::
  "(string \<Rightarrow> string + JWTPayload) \<Rightarrow> int \<Rightarrow> ('b, 'p, 'q) Request \<Rightarrow> ('b, 'p, 'q) Request Step" where
  "requireAuth verify now req =
     (let token = bearer_token (req_authorization req)
      in if \<not> truthy token
         then Respond 401 \<lparr> env_success = False, env_message = ''Token de acceso requerido'',
                 env_error = Some ''MISSING_TOKEN'', env_errors = None, env_timestamp = None \<rparr>
         else (case token of
                 None \<Rightarrow> Respond 401 \<lparr> env_success = False,
                           env_message = ''Token de acceso requerido'',
                           env_error = Some ''MISSING_TOKEN'', env_errors = None,
                           env_timestamp = None \<rparr>
               | Some tok \<Rightarrow>
                   (case verify tok of
                      Inl err_name \<Rightarrow>
                        Respond 403
                          (if err_name = ''TokenExpiredError''
                           then \<lparr> env_success = False, env_message = ''Token expirado'',
                                  env_error = Some ''EXPIRED_TOKEN'', env_errors = None,
                                  env_timestamp = Some now \<rparr>
                           else if err_name = ''JsonWebTokenError''
                           then \<lparr> env_success = False, env_message = ''Token malformado'',
                                  env_error = Some ''MALFORMED_TOKEN'', env_errors = None,
                                  env_timestamp = Some now \<rparr>
                           else \<lparr> env_success = False, env_message = ''Token invalido'',
                                  env_error = Some ''INVALID_TOKEN'', env_errors = None,
                                  env_timestamp = Some now \<rparr>)
                    | Inr decoded \<Rightarrow> Next (req \<lparr> req_user := Some decoded \<rparr>))))"

section \<open>Orders: \<open>schemas/orders.schema.ts\<close>\<close>

record OrderItemCreateRequest =
  oic_product_id :: string
  oic_quantity :: number
  oic_unit_price :: number

record OrderCreateRequest =
  ocr_customer_id :: string
  ocr_items :: "OrderItemCreateRequest list"
  ocr_shipping_address :: "string option"
  ocr_billing_address :: "string option"
  ocr_payment_method :: "string option"

definition issue :: "PathSegment list \<Rightarrow> string \<Rightarrow> string \<Rightarrow> ZodIssue" where
  "issue path msg c =
     \<lparr> issue_path = path, issue_message = msg, issue_code = c, issue_received = None \<rparr>"

text \<open>\<open>z.string().uuid(...)\<close>: the format test is zod's, the parameter \<open>uuid_ok\<close>.\<close>

definition uuidSchema :: "(string \<Rightarrow> bool) \<Rightarrow> PathSegment list \<Rightarrow> string \<Rightarrow> ZodIssue list" where
  "uuidSchema uuid_ok path s =
     (if uuid_ok s then [] else [issue path ''ID debe ser un UUID valido'' ''invalid_string''])"

text \<open>zod's \<open>multipleOf(step)\<close>: the value is a whole multiple of the step.\<close>

definition multipleOf :: "number \<Rightarrow> number \<Rightarrow> bool" where
  "multipleOf step v = is_integer (v / step)"

definition priceSchema :: "PathSegment list \<Rightarrow> number \<Rightarrow> ZodIssue list" where
  "priceSchema path v =
     (if v > 0 then [] else [issue path ''El precio debe ser positivo'' ''too_small''])
     @ (if v \<le> 999999999 / 100 then []
        else [issue path ''El precio no puede exceder $9,999,999.99'' ''too_big''])
     @ (if multipleOf (1 / 100) v then []
        else [issue path ''El precio debe tener maximo 2 decimales'' ''not_multiple_of''])"

definition quantitySchema :: "PathSegment list \<Rightarrow> number \<Rightarrow> ZodIssue list" where
  "quantitySchema path v =
     (if is_integer v then []
      else [issue path ''La cantidad debe ser un numero entero'' ''invalid_type''])
     @ (if v > 0 then [] else [issue path ''La cantidad debe ser positiva'' ''too_small''])
     @ (if v \<le> 999 then [] else [issue path ''La cantidad no puede exceder 999'' ''too_big''])"

definition addressSchema :: "PathSegment list \<Rightarrow> string \<Rightarrow> ZodIssue list" where
  "addressSchema path s =
     (if length s \<ge> 10 then []
      else [issue path ''La direccion debe tener al menos 10 caracteres'' ''too_small''])
     @ (if length s \<le> 500 then []
        else [issue path ''La direccion no puede exceder 500 caracteres'' ''too_big''])"

definition paymentMethodSchema :: "PathSegment list \<Rightarrow> string \<Rightarrow> ZodIssue list" where
  "paymentMethodSchema path s =
     (if length s \<ge> 2 then []
      else [issue path ''El metodo de pago debe tener al menos 2 caracteres'' ''too_small''])
     @ (if length s \<le> 50 then []
        else [issue path ''El metodo de pago no puede exceder 50 caracteres'' ''too_big''])"

definition orderItemSchema ::
  "(string \<Rightarrow> bool) \<Rightarrow> PathSegment list \<Rightarrow> OrderItemCreateRequest \<Rightarrow> ZodIssue list" where
  "orderItemSchema uuid_ok path item =
     uuidSchema uuid_ok (path @ [Key ''product_id'']) (oic_product_id item)
     @ quantitySchema (path @ [Key ''quantity'']) (oic_quantity item)
     @ priceSchema (path @ [Key ''unit_price'']) (oic_unit_price item)"

text \<open>An optional field: absent passes, present runs the schema.\<close>

definition optional :: "(string \<Rightarrow> ZodIssue list) \<Rightarrow> string option \<Rightarrow> ZodIssue list" where
  "optional schema v = (case v of None \<Rightarrow> [] | Some s \<Rightarrow> schema s)"

text \<open>The items array: the length checks, then every element at its index.\<close>

definition items_issues :: "(string \<Rightarrow> bool) \<Rightarrow> OrderItemCreateRequest list \<Rightarrow> ZodIssue list" where
  "items_issues uuid_ok items =
     (if length items \<ge> 1 then []
      else [issue [Key ''items''] ''El pedido debe contener al menos un item'' ''too_small''])
     @ (if length items \<le> 50 then []
        else [issue [Key ''items''] ''El pedido no puede tener mas de 50 items'' ''too_big''])
     @ concat (map (\<lambda>(i, item). orderItemSchema uuid_ok [Key ''items'', Index i] item)
                (enumerate 0 items))"

text \<open>The refinement: \<open>productIds.length === new Set(productIds).size\<close>. The size of the
  set is the number of different ids.\<close>

definition no_duplicate_products :: "OrderCreateRequest \<Rightarrow> bool" where
  "no_duplicate_products data =
     (let productIds = map oic_product_id (ocr_items data)
      in length productIds = length (remdups productIds))"

definition createOrderSchema ::
  "(string \<Rightarrow> bool) \<Rightarrow> OrderCreateRequest \<Rightarrow> OrderCreateRequest ParseResult" where
  "createOrderSchema uuid_ok data =
     parse_result
       (uuidSchema uuid_ok [Key ''customer_id''] (ocr_customer_id data)
        @ items_issues uuid_ok (ocr_items data)
        @ optional (addressSchema [Key ''shipping_address'']) (ocr_shipping_address data)
        @ optional (addressSchema [Key ''billing_address'']) (ocr_billing_address data)
        @ optional (paymentMethodSchema [Key ''payment_method'']) (ocr_payment_method data)
        @ (if no_duplicate_products data then []
           else [issue [Key ''items''] ''No puede haber productos duplicados en el pedido''
                   ''custom'']))
       (data \<lparr> ocr_shipping_address := map_option trim (ocr_shipping_address data),
               ocr_billing_address := map_option trim (ocr_billing_address data),
               ocr_payment_method := map_option trim (ocr_payment_method data) \<rparr>)"

section \<open>Orders: the data layer \<open>data/orders.database.ts\<close>\<close>

datatype OrderStatus = PENDING | CONFIRMED | PROCESSING | SHIPPED | DELIVERED | ORDER_CANCELLED

datatype PaymentStatus = PAYMENT_PENDING | PAID | FAILED | REFUNDED

record Order =
  ord_id :: string
  customer_id :: string
  order_number :: string
  subtotal :: number
  tax_amount :: number
  shipping_amount :: number
  total_amount :: number
  order_status :: OrderStatus
  shipping_address :: "string option"
  billing_address :: "string option"
  payment_method :: "string option"
  payment_status :: PaymentStatus
  ord_created_at :: int
  ord_updated_at :: int

record OrderItem =
  item_id :: string
  order_id :: string
  product_id :: string
  quantity :: number
  unit_price :: number
  total_price :: number
  item_created_at :: int

record OrderWithItems = Order +
  items :: "OrderItem list"

text \<open>The two tables. An \<open>INSERT\<close> appends the row it is sent; it throws when the row
  repeats a primary key or a \<open>UNIQUE\<close> column of \<open>database-schema.sql\<close> (\<open>None\<close>).
  Strings are compared by equality; the collation of the database, its foreign keys
  (\<open>customer_id\<close>, \<open>product_id\<close>) and the widths of its \<open>DECIMAL\<close> columns are not
  modelled, so a row is refused here only for a repeated key.\<close>

definition insert_row :: "('r \<Rightarrow> 'r \<Rightarrow> bool) \<Rightarrow> 'r \<Rightarrow> 'r list \<Rightarrow> 'r list option" where
  "insert_row clash r rows = (if list_ex (clash r) rows then None else Some (rows @ [r]))"

record OrdersDb =
  orders :: "Order list"
  order_items :: "OrderItem list"

definition orders_clash :: "Order \<Rightarrow> Order \<Rightarrow> bool" where
  "orders_clash r r' = (ord_id r = ord_id r' \<or> order_number r = order_number r')"

definition order_items_clash :: "OrderItem \<Rightarrow> OrderItem \<Rightarrow> bool" where
  "order_items_clash r r' = (item_id r = item_id r')"

text \<open>\<open>generateOrderNumber\<close>: \<open>ORD-\<close>, the local year of the clock (\<open>getFullYear()\<close>, the
  parameter \<open>year\<close>), and the last six digits of the time value.\<close>

definition generateOrderNumber :: "nat \<Rightarrow> nat \<Rightarrow> string" where
  "generateOrderNumber year now =
     ''ORD-'' @ show_nat year @ ''-'' @ drop (length (show_nat now) - 6) (show_nat now)"

text \<open>\<open>x || null\<close> on an optional string.\<close>

definition or_null :: "string option \<Rightarrow> string option" where
  "or_null x = (if truthy x then x else None)"

text \<open>The loop over \<open>orderData.items\<close>: one \<open>INSERT\<close> per item; \<open>uuid k\<close> is the k-th id
  drawn from \<open>uuidv4()\<close> in this call. The result is \<open>None\<close> when an insert throws.\<close>

fun insert_items ::
  "(nat \<Rightarrow> string) \<Rightarrow> nat \<Rightarrow> int \<Rightarrow> string \<Rightarrow> OrderItemCreateRequest list \<Rightarrow> OrderItem list
     \<Rightarrow> OrderItem list \<Rightarrow> OrderItem list option \<times> OrderItem list" where
  "insert_items uuid k now oid [] done_items table = (Some done_items, table)"
| "insert_items uuid k now oid (itemData # rest) done_items table =
     (let item = \<lparr> item_id = uuid k, order_id = oid, product_id = oic_product_id itemData,
                    quantity = oic_quantity itemData, unit_price = oic_unit_price itemData,
                    total_price = oic_quantity itemData * oic_unit_price itemData,
                    item_created_at = now \<rparr>
      in case insert_row order_items_clash item table of
           None \<Rightarrow> (None, table)
         | Some table' \<Rightarrow> insert_items uuid (Suc k) now oid rest (done_items @ [item]) table')"

definition createOrder ::
  "(nat \<Rightarrow> string) \<Rightarrow> nat \<Rightarrow> int \<Rightarrow> OrderCreateRequest \<Rightarrow> OrdersDb
     \<Rightarrow> OrderWithItems option \<times> OrdersDb" where
  "createOrder uuid year now orderData db =
     (let sub = foldl (\<lambda>sum item. sum + oic_quantity item * oic_unit_price item) 0
                  (ocr_items orderData);
          taxAmount = sub * (1 / 10);
          shippingAmount = (if sub > 50 then 0 else 10);
          totalAmount = sub + taxAmount + shippingAmount;
          order = \<lparr> ord_id = uuid 0, customer_id = ocr_customer_id orderData,
                     order_number = generateOrderNumber year (nat now),
                     subtotal = sub, tax_amount = taxAmount,
                     shipping_amount = shippingAmount, total_amount = totalAmount,
                     order_status = PENDING,
                     shipping_address = or_null (ocr_shipping_address orderData),
                     billing_address = or_null (ocr_billing_address orderData),
                     payment_method = or_null (ocr_payment_method orderData),
                     payment_status = PAYMENT_PENDING,
                     ord_created_at = now, ord_updated_at = now \<rparr>
      in case insert_row orders_clash order (orders db) of
           None \<Rightarrow> (None, db)
         | Some orders' \<Rightarrow>
             (case insert_items uuid 1 now (ord_id order) (ocr_items orderData) []
                     (order_items db) of
                (None, items') \<Rightarrow> (None, \<lparr> orders = orders', order_items = items' \<rparr>)
              | (Some its, items') \<Rightarrow>
                  (Some (Order.extend order \<lparr> items = its \<rparr>),
                   \<lparr> orders = orders', order_items = items' \<rparr>)))"

section \<open>Orders: the handler and the route\<close>

text \<open>A handler's JSON answer: \<open>{ success: true, data, message }\<close> or an error body.\<close>

datatype 'a ApiResponse = Success nat 'a string | Failure nat ErrorEnvelope

fun api_status :: "'a ApiResponse \<Rightarrow> nat" where
  "api_status (Success n d m) = n"
| "api_status (Failure n e) = n"

definition failure :: "nat \<Rightarrow> string \<Rightarrow> 'a ApiResponse" where
  "failure n msg =
     Failure n \<lparr> env_success = False, env_message = msg, env_error = None,
                 env_errors = None, env_timestamp = None \<rparr>"

text \<open>\<open>createOrder\<close> of \<open>controllers/orders.controller.ts\<close>. Reading \<open>authUser.role\<close> of an
  absent user throws, and the \<open>catch\<close> answers 500, as it does when the data layer throws.\<close>

definition createOrder_handler ::
  "(nat \<Rightarrow> string) \<Rightarrow> nat \<Rightarrow> int \<Rightarrow> (OrderCreateRequest, 'p, 'q) Request \<Rightarrow> OrdersDb
     \<Rightarrow> OrderWithItems ApiResponse \<times> OrdersDb" where
  "createOrder_handler uuid year now req db =
     (let orderData = req_body req
      in case req_user req of
           None \<Rightarrow> (failure 500 ''Error interno del servidor'', db)
         | Some authUser \<Rightarrow>
             if jwt_role authUser \<noteq> ADMIN \<and> userId authUser \<noteq> ocr_customer_id orderData
             then (failure 403 ''No puedes crear pedidos para otros usuarios'', db)
             else if length (ocr_items orderData) = 0
             then (failure 400 ''El pedido debe contener al menos un item'', db)
             else (case createOrder uuid year now orderData db of
                     (Some newOrder, db') \<Rightarrow>
                       (Success 201 newOrder ''Pedido creado exitosamente'', db')
                   | (None, db') \<Rightarrow> (failure 500 ''Error interno del servidor'', db')))"

text \<open>An Express route \<open>router.post(path, m1, ..., handler)\<close>: each middleware either
  answers or hands the request to the next one; the handler runs last.\<close>

fun run_route ::
  "('r \<Rightarrow> 'r Step) list \<Rightarrow> ('r \<Rightarrow> 'db \<Rightarrow> 'a ApiResponse \<times> 'db) \<Rightarrow> 'r \<Rightarrow> 'db
     \<Rightarrow> 'a ApiResponse \<times> 'db" where
  "run_route [] handler req db = handler req db"
| "run_route (m # ms) handler req db =
     (case m req of
        Respond n e \<Rightarrow> (Failure n e, db)
      | Next req' \<Rightarrow> run_route ms handler req' db)"

text \<open>\<open>router.post('/', requireAuth, validateBody(createOrderSchema), createOrder)\<close>.\<close>

definition post_orders_middlewares ::
  "(string \<Rightarrow> string + JWTPayload) \<Rightarrow> (string \<Rightarrow> bool) \<Rightarrow> int
     \<Rightarrow> ((OrderCreateRequest, 'p, 'q) Request \<Rightarrow> (OrderCreateRequest, 'p, 'q) Request Step) list" where
  "post_orders_middlewares verify uuid_ok now =
     [requireAuth verify now, validateBody (createOrderSchema uuid_ok) now]"

definition post_orders ::
  "(string \<Rightarrow> string + JWTPayload) \<Rightarrow> (string \<Rightarrow> bool) \<Rightarrow> (nat \<Rightarrow> string) \<Rightarrow> nat \<Rightarrow> int
     \<Rightarrow> (OrderCreateRequest, 'p, 'q) Request \<Rightarrow> OrdersDb
     \<Rightarrow> OrderWithItems ApiResponse \<times> OrdersDb" where
  "post_orders verify uuid_ok uuid year now req db =
     run_route (post_orders_middlewares verify uuid_ok now)
       (createOrder_handler uuid year now) req db"

text \<open>Values for the examples: a format test for ids (five groups of hexadecimal digits
  of lengths 8, 4, 4, 4 and 12), a token check that accepts the token \<open>good\<close> of one
  customer, the ids drawn by \<open>uuidv4()\<close>, and request bodies.\<close>

definition is_hex :: "char \<Rightarrow> bool" where
  "is_hex c = (c \<in> set ''0123456789abcdefABCDEF'')"

definition uuid_format :: "string \<Rightarrow> bool" where
  "uuid_format s =
     (case split_on CHR ''-'' s of
        [a, b, c, d, e] \<Rightarrow>
          map length [a, b, c, d, e] = [8, 4, 4, 4, 12] \<and> list_all is_hex (a @ b @ c @ d @ e)
      | _ \<Rightarrow> False)"

definition customer1 :: string where
  "customer1 = ''550e8400-e29b-41d4-a716-446655440001''"

definition product1 :: string where
  "product1 = ''660e8400-e29b-41d4-a716-446655440001''"

definition product2 :: string where
  "product2 = ''660e8400-e29b-41d4-a716-446655440002''"

definition verify_good :: "string \<Rightarrow> string + JWTPayload" where
  "verify_good tok =
     (if tok = ''good''
      then Inr \<lparr> userId = customer1, jwt_email = ''ana@example.com'', jwt_role = CUSTOMER \<rparr>
      else Inl ''JsonWebTokenError'')"

definition uuid_seq :: "nat \<Rightarrow> string" where
  "uuid_seq k = ''generated-'' @ show_nat k"

definition order_item :: "string \<Rightarrow> number \<Rightarrow> number \<Rightarrow> OrderItemCreateRequest" where
  "order_item pid q p = \<lparr> oic_product_id = pid, oic_quantity = q, oic_unit_price = p \<rparr>"

definition order_body :: "OrderItemCreateRequest list \<Rightarrow> OrderCreateRequest" where
  "order_body its =
     \<lparr> ocr_customer_id = customer1, ocr_items = its, ocr_shipping_address = None,
       ocr_billing_address = None, ocr_payment_method = None \<rparr>"

definition order_request ::
  "string option \<Rightarrow> OrderCreateRequest \<Rightarrow> (OrderCreateRequest, unit, unit) Request" where
  "order_request auth b =
     \<lparr> req_authorization = auth, req_body = b, req_params = (), req_query = Map.empty,
       req_user = None \<rparr>"

definition empty_db :: OrdersDb where
  "empty_db = \<lparr> orders = [], order_items = [] \<rparr>"

section \<open>Notions used to state the middleware property\<close>








section \<open>Reviews: \<open>controllers/reviews.controller.ts\<close>\<close>

datatype ReviewableType = STYLIST | PRODUCT | STYLE

definition reviewable_of_string :: "string \<Rightarrow> ReviewableType option" where
  "reviewable_of_string s =
     (if s = ''STYLIST'' then Some STYLIST
      else if s = ''PRODUCT'' then Some PRODUCT
      else if s = ''STYLE'' then Some STYLE
      else None)"

record Review =
  rev_id :: string
  rev_user_id :: string
  rating :: number
  comment :: string
  reviewable_id :: string
  reviewable_type :: ReviewableType
  is_verified :: bool
  rev_created_at :: jsdate
  rev_updated_at :: jsdate

record CreateReviewBody =
  crb_user_id :: "string option"
  crb_rating :: "number option"
  crb_comment :: "string option"
  crb_reviewable_id :: "string option"
  crb_reviewable_type :: "string option"

text \<open>The lookup of \<open>createReview\<close>:
  \<open>r.user_id === user_id && r.reviewable_id === reviewable_id && r.reviewable_type === reviewable_type\<close>.\<close>

definition same_review_key :: "string \<Rightarrow> string \<Rightarrow> ReviewableType \<Rightarrow> Review \<Rightarrow> bool" where
  "same_review_key uid rid rtype r =
     (rev_user_id r = uid \<and> reviewable_id r = rid \<and> reviewable_type r = rtype)"

definition createReview ::
  "int \<Rightarrow> string \<Rightarrow> CreateReviewBody \<Rightarrow> Review list \<Rightarrow> Review Response \<times> Review list" where
  "createReview now new_id b reviews =
     (case (crb_user_id b, crb_rating b, crb_comment b, crb_reviewable_id b,
            crb_reviewable_type b) of
        (Some uid, Some r, Some c, Some rid, Some rt) \<Rightarrow>
          if uid = [] \<or> r = 0 \<or> c = [] \<or> rid = [] \<or> rt = []
          then (Message 400
                  ''Faltan campos requeridos: user_id, rating, comment, reviewable_id, reviewable_type'',
                reviews)
          else if r < 1 \<or> r > 5 \<or> \<not> is_integer r
          then (Message 400 ''El rating debe ser un numero entero entre 1 y 5'', reviews)
          else
            (case reviewable_of_string rt of
               None \<Rightarrow> (Message 400 ''Tipo de resena invalido'', reviews)
             | Some rtype \<Rightarrow>
                 (case find (same_review_key uid rid rtype) reviews of
                    Some existingReview \<Rightarrow>
                      (Message 409 ''El usuario ya ha resenado esta entidad'', reviews)
                  | None \<Rightarrow>
                      (let newReview =
                             \<lparr> rev_id = new_id, rev_user_id = uid, rating = r, comment = c,
                               reviewable_id = rid, reviewable_type = rtype,
                               is_verified = False, rev_created_at = Some now,
                               rev_updated_at = Some now \<rparr>
                       in (Json 201 newReview, reviews @ [newReview]))))
      | _ \<Rightarrow>
          (Message 400
             ''Faltan campos requeridos: user_id, rating, comment, reviewable_id, reviewable_type'',
           reviews))"

section \<open>Categories: \<open>data/categories.database.ts\<close> and \<open>controllers/categories.controller.ts\<close>\<close>

record Category =
  cat_id :: string
  cat_name :: string
  cat_description :: "string option"
  display_order :: number
  is_active :: bool
  cat_created_at :: int
  cat_updated_at :: int

record CategoryCreateRequest =
  ccr_name :: string
  ccr_description :: "string option"
  ccr_display_order :: "number option"
  ccr_is_active :: "bool option"


text \<open>The table \<open>categories\<close>: \<open>id\<close> is the primary key and \<open>name\<close> is \<open>UNIQUE\<close>.\<close>

definition categories_clash :: "Category \<Rightarrow> Category \<Rightarrow> bool" where
  "categories_clash r r' = (cat_id r = cat_id r' \<or> cat_name r = cat_name r')"


definition getCategoryByName :: "string \<Rightarrow> Category list \<Rightarrow> Category option" where
  "getCategoryByName name rows = find (\<lambda>r. cat_name r = name) rows"

text \<open>\<open>addCategory\<close>; the outer \<open>None\<close> is the exception of a failed \<open>INSERT\<close>.\<close>

definition addCategory ::
  "int \<Rightarrow> string \<Rightarrow> CategoryCreateRequest \<Rightarrow> Category list \<Rightarrow> (Category \<times> Category list) option" where
  "addCategory now new_id categoryData rows =
     (let category =
            \<lparr> cat_id = new_id, cat_name = ccr_name categoryData,
              cat_description = or_null (ccr_description categoryData),
              display_order = (case ccr_display_order categoryData of
                                 Some n \<Rightarrow> (if n \<noteq> 0 then n else 0) | None \<Rightarrow> 0),
              is_active = (case ccr_is_active categoryData of Some a \<Rightarrow> a | None \<Rightarrow> True),
              cat_created_at = now, cat_updated_at = now \<rparr>
      in map_option (\<lambda>rows'. (category, rows')) (insert_row categories_clash category rows))"



text \<open>\<open>createCategory\<close> of the controller.\<close>

definition createCategory ::
  "int \<Rightarrow> string \<Rightarrow> CategoryCreateRequest \<Rightarrow> Category list
     \<Rightarrow> Category ApiResponse \<times> Category list" where
  "createCategory now new_id categoryData rows =
     (case getCategoryByName (ccr_name categoryData) rows of
        Some existingCategory \<Rightarrow> (failure 400 ''Ya existe una categoria con ese nombre'', rows)
      | None \<Rightarrow>
          (case addCategory now new_id categoryData rows of
             Some (newCategory, rows') \<Rightarrow>
               (Success 201 newCategory ''Categoria creada exitosamente'', rows')
           | None \<Rightarrow> (failure 500 ''Error interno del servidor'', rows)))"

section \<open>Users: \<open>data/users.database.ts\<close> and \<open>controllers/users.controller.ts\<close>\<close>

record User =
  usr_id :: string
  usr_name :: string
  usr_email :: string
  password_hash :: string
  usr_role :: UserRole
  phone :: "string option"
  usr_created_at :: int
  usr_updated_at :: int

record UserRow = User +
  usr_is_active :: bool

record SafeUser =
  safe_id :: string
  safe_name :: string
  safe_email :: string
  safe_role :: UserRole
  safe_phone :: "string option"
  safe_created_at :: int
  safe_updated_at :: int

text \<open>The table \<open>users\<close>: \<open>id\<close> is the primary key and \<open>email\<close> is \<open>UNIQUE\<close>.\<close>

definition users_clash :: "UserRow \<Rightarrow> UserRow \<Rightarrow> bool" where
  "users_clash r r' = (usr_id r = usr_id r' \<or> usr_email r = usr_email r')"

definition mapRowToUser :: "UserRow \<Rightarrow> User" where
  "mapRowToUser row =
     \<lparr> usr_id = usr_id row, usr_name = usr_name row, usr_email = usr_email row,
       password_hash = password_hash row, usr_role = usr_role row, phone = phone row,
       usr_created_at = usr_created_at row, usr_updated_at = usr_updated_at row \<rparr>"

text \<open>\<open>SELECT ... WHERE email = ? AND is_active = true\<close>.\<close>

definition getUserByEmail :: "string \<Rightarrow> UserRow list \<Rightarrow> User option" where
  "getUserByEmail email rows =
     map_option mapRowToUser (find (\<lambda>r. usr_email r = email \<and> usr_is_active r) rows)"

definition addUser :: "User \<Rightarrow> UserRow list \<Rightarrow> (User \<times> UserRow list) option" where
  "addUser u rows =
     map_option (\<lambda>rows'. (u, rows'))
       (insert_row users_clash (User.extend u \<lparr> usr_is_active = True \<rparr>) rows)"

record CreateUserBody =
  cub_name :: string
  cub_email :: string
  cub_password :: string
  cub_role :: "UserRole option"

text \<open>\<open>createUser\<close> of the controller; \<open>bcrypt.hash(password, 10)\<close> is the parameter
  \<open>hash\<close>.\<close>

definition createUser ::
  "(string \<Rightarrow> string) \<Rightarrow> int \<Rightarrow> string \<Rightarrow> CreateUserBody \<Rightarrow> UserRow list
     \<Rightarrow> SafeUser ApiResponse \<times> UserRow list" where
  "createUser hash now new_id b rows =
     (case getUserByEmail (cub_email b) rows of
        Some existingUser \<Rightarrow> (failure 409 ''El email ya esta registrado'', rows)
      | None \<Rightarrow>
          (let newUser =
                 \<lparr> usr_id = new_id, usr_name = cub_name b, usr_email = cub_email b,
                   password_hash = hash (cub_password b),
                   usr_role = (case cub_role b of Some r \<Rightarrow> r | None \<Rightarrow> CUSTOMER),
                   phone = None, usr_created_at = now, usr_updated_at = now \<rparr>
           in case addUser newUser rows of
                None \<Rightarrow> (failure 500 ''Error interno del servidor'', rows)
              | Some (u, rows') \<Rightarrow>
                  (Success 201
                     \<lparr> safe_id = usr_id newUser, safe_name = usr_name newUser,
                       safe_email = usr_email newUser, safe_role = usr_role newUser,
                       safe_phone = phone newUser, safe_created_at = usr_created_at newUser,
                       safe_updated_at = usr_updated_at newUser \<rparr>
                     ''Usuario creado exitosamente'',
                   rows')))"

text \<open>Bodies for the examples, after the test suites: a review, a category and a user.\<close>

definition review_body :: CreateReviewBody where
  "review_body =
     \<lparr> crb_user_id = Some ''user-duplicate'', crb_rating = Some 5,
       crb_comment = Some ''Primera resena'', crb_reviewable_id = Some ''entity-duplicate'',
       crb_reviewable_type = Some ''STYLIST'' \<rparr>"

definition category_body :: CategoryCreateRequest where
  "category_body =
     \<lparr> ccr_name = ''Categoria Duplicada'', ccr_description = Some ''Primera categoria'',
       ccr_display_order = None, ccr_is_active = None \<rparr>"

definition user_body :: CreateUserBody where
  "user_body =
     \<lparr> cub_name = ''Usuario Duplicado'', cub_email = ''duplicate@example.com'',
       cub_password = ''password123'', cub_role = None \<rparr>"

definition hash_example :: "string \<Rightarrow> string" where
  "hash_example p = ''$2b$10$'' @ p"




section \<open>Price schemas: \<open>schemas/products.schema.ts\<close> and \<open>schemas/appointments.schema.ts\<close>\<close>






section \<open>Appointment date-time schema: \<open>schemas/appointments.schema.ts\<close>\<close>

text \<open>
  Local time of the server: \<open>tz t\<close> is the offset of local time from UTC, in
  milliseconds, at the time value \<open>t\<close>. \<open>getDay\<close> and \<open>getHours\<close> follow the
  language definition: the day number is the time value divided by the milliseconds of a
  day, day 0 (1 January 1970) was a Thursday, and Sunday is weekday 0.
\<close>

definition msPerHour :: int where
  "msPerHour = 3600000"

definition msPerDay :: int where
  "msPerDay = 86400000"

definition LocalTime :: "(int \<Rightarrow> int) \<Rightarrow> int \<Rightarrow> int" where
  "LocalTime tz t = t + tz t"

definition getDay :: "(int \<Rightarrow> int) \<Rightarrow> int \<Rightarrow> int" where
  "getDay tz t = (LocalTime tz t div msPerDay + 4) mod 7"

definition getHours :: "(int \<Rightarrow> int) \<Rightarrow> int \<Rightarrow> int" where
  "getHours tz t = (LocalTime tz t div msPerHour) mod 24"

text \<open>The four refinements, on the \<open>Date\<close> built from the string. Each of the first two
  reads the clock itself (\<open>now1\<close>, \<open>now2\<close>). A comparison with an invalid date is false.\<close>

definition at_least_one_hour_ahead :: "int \<Rightarrow> jsdate \<Rightarrow> bool" where
  "at_least_one_hour_ahead now appointmentDate =
     (case appointmentDate of
        None \<Rightarrow> False
      | Some t \<Rightarrow> (let oneHourFromNow = now + 60 * 60 * 1000 in t \<ge> oneHourFromNow))"

definition at_most_six_months_ahead :: "int \<Rightarrow> jsdate \<Rightarrow> bool" where
  "at_most_six_months_ahead now appointmentDate =
     (case appointmentDate of
        None \<Rightarrow> False
      | Some t \<Rightarrow>
          (let sixMonthsFromNow = now + 6 * 30 * 24 * 60 * 60 * 1000 in t \<le> sixMonthsFromNow))"

definition monday_to_saturday :: "(int \<Rightarrow> int) \<Rightarrow> jsdate \<Rightarrow> bool" where
  "monday_to_saturday tz appointmentDate =
     (case appointmentDate of
        None \<Rightarrow> False
      | Some t \<Rightarrow> (let dayOfWeek = getDay tz t in dayOfWeek \<ge> 1 \<and> dayOfWeek \<le> 6))"

definition business_hours :: "(int \<Rightarrow> int) \<Rightarrow> jsdate \<Rightarrow> bool" where
  "business_hours tz appointmentDate =
     (case appointmentDate of
        None \<Rightarrow> False
      | Some t \<Rightarrow> (let hour = getHours tz t in hour \<ge> 8 \<and> hour < 18))"

text \<open>\<open>appointmentDateSchema\<close>: the format test of \<open>z.string().datetime()\<close> is the
  parameter \<open>iso_datetime\<close>; the refinements all run and every failure is an issue; the
  accepted string is transformed to its \<open>Date\<close>.\<close>

definition appointmentDateSchema ::
  "(string \<Rightarrow> bool) \<Rightarrow> (string \<Rightarrow> jsdate) \<Rightarrow> (int \<Rightarrow> int) \<Rightarrow> int \<Rightarrow> int \<Rightarrow> PathSegment list
     \<Rightarrow> string \<Rightarrow> jsdate ParseResult" where
  "appointmentDateSchema iso_datetime mkDate tz now1 now2 path dateString =
     parse_result
       ((if iso_datetime dateString then []
         else [issue path ''La fecha debe tener formato ISO 8601 valido'' ''invalid_string''])
        @ (if at_least_one_hour_ahead now1 (mkDate dateString) then []
           else [issue path ''La cita debe ser programada al menos 1 hora en el futuro''
                   ''custom''])
        @ (if at_most_six_months_ahead now2 (mkDate dateString) then []
           else [issue path ''La cita no puede programarse mas de 6 meses en el futuro''
                   ''custom''])
        @ (if monday_to_saturday tz (mkDate dateString) then []
           else [issue path ''Las citas solo pueden programarse de lunes a sabado'' ''custom''])
        @ (if business_hours tz (mkDate dateString) then []
           else [issue path ''Las citas solo pueden programarse entre 8:00 AM y 6:00 PM''
                   ''custom'']))
       (mkDate dateString)"

text \<open>For the examples: the format \<open>YYYY-MM-DDTHH:MM:SSZ\<close>, the \<open>Date\<close> constructor on
  three such strings, and a server in UTC.\<close>

definition is_digit :: "char \<Rightarrow> bool" where
  "is_digit c = (c \<in> set ''0123456789'')"

definition iso_utc_format :: "string \<Rightarrow> bool" where
  "iso_utc_format s =
     (length s = 20
      \<and> list_all2 (\<lambda>c p. if p = CHR ''d'' then is_digit c else c = p) s
           ''dddd-dd-ddTdd:dd:ddZ'')"

definition Date_iso :: "string \<Rightarrow> jsdate" where
  "Date_iso s =
     (if s = ''2025-03-10T10:00:00Z'' then Some 1741600800000
      else if s = ''2025-03-09T10:00:00Z'' then Some 1741514400000
      else if s = ''2025-03-10T07:30:00Z'' then Some 1741591800000
      else None)"

definition utc :: "int \<Rightarrow> int" where
  "utc t = 0"

chapter \<open>Properties\<close>

section \<open>Appointment conflict check\<close>

lemma find_None_iff_list: "find P xs = None \<longleftrightarrow> \<not> list_ex P xs"
  by (induction xs) auto

lemma createAppointment_guard_rejects:
  assumes "\<not> truthy (cab_user_id body) \<or> \<not> truthy (cab_stylist_id body)
           \<or> \<not> truthy (cab_style_id body) \<or> \<not> truthy (cab_appointment_date body)
           \<or> (\<exists>ds. cab_appointment_date body = Some ds
                  \<and> (mkDate ds = None \<or> (\<exists>t. mkDate ds = Some t \<and> t \<le> now)))"
  shows "status_code (fst (createAppointment mkDate now new_id body appointments)) = 400
         \<and> snd (createAppointment mkDate now new_id body appointments) = appointments"
  using assms
  by (auto simp: createAppointment_def split: option.splits)

text \<open>
  Claim C2, as amended. For a creation request that passes the handler's earlier checks
  (user, stylist, style and date present and non-empty, the date parses to a time value
  \<open>t\<close>, and \<open>t\<close> is strictly after the clock reading), the answer is 409 exactly when
  some stored appointment has the same stylist id, the time value \<open>t\<close> and status
  \<open>SCHEDULED\<close>; then the store is unchanged. Otherwise the answer is 201 and the new
  \<open>SCHEDULED\<close> appointment is appended, so an appointment at the same time with another
  status does not block the creation.
\<close>

theorem createAppointment_conflict_iff:
  assumes "cab_user_id body = Some uid" and "uid \<noteq> []"
    and "cab_stylist_id body = Some sid" and "sid \<noteq> []"
    and "cab_style_id body = Some stid" and "stid \<noteq> []"
    and "cab_appointment_date body = Some ds" and "ds \<noteq> []"
    and "mkDate ds = Some t" and "now < t"
  shows "(status_code (fst (createAppointment mkDate now new_id body appointments)) = 409
            \<longleftrightarrow> list_ex (conflicts_with sid t) appointments)
         \<and> (if list_ex (conflicts_with sid t) appointments
             then snd (createAppointment mkDate now new_id body appointments) = appointments
             else \<exists>a. createAppointment mkDate now new_id body appointments =
                        (Json 201 a, appointments @ [a])
                    \<and> appt_id a = new_id \<and> stylist_id a = sid
                    \<and> appointment_date a = Some t \<and> status a = SCHEDULED)"
proof (cases "find (conflicts_with sid t) appointments")
  case None
  then have "\<not> list_ex (conflicts_with sid t) appointments"
    by (simp add: find_None_iff_list)
  with None assms show ?thesis
    by (simp add: createAppointment_def Let_def)
next
  case (Some c)
  then have "list_ex (conflicts_with sid t) appointments"
    using find_None_iff_list [of "conflicts_with sid t" appointments] by simp
  with Some assms show ?thesis
    by (simp add: createAppointment_def)
qed

text \<open>The scenario of the specification: booking stylist-1 for 2025-03-10T10:00 succeeds,
  booking the same stylist for the identical time again is a conflict.\<close>

theorem createAppointment_conflict_iff_witness:
  "\<not> list_ex (conflicts_with ''stylist-1'' 1741600800000)
        (initialAppointments Date_utc ''a1'' ''a2'' ''a3'')
   \<and> status_code (fst (createAppointment Date_utc 1740819600000 ''a4''
          (booking_body ''stylist-1'' ''2025-03-10T10:00:00'')
          (initialAppointments Date_utc ''a1'' ''a2'' ''a3''))) = 201
   \<and> status_code (fst (createAppointment Date_utc 1740819600000 ''a5''
          (booking_body ''stylist-1'' ''2025-03-10T10:00:00'')
          (snd (createAppointment Date_utc 1740819600000 ''a4''
             (booking_body ''stylist-1'' ''2025-03-10T10:00:00'')
             (initialAppointments Date_utc ''a1'' ''a2'' ''a3''))))) = 409"
  using createAppointment_conflict_iff [of "booking_body ''stylist-1'' ''2025-03-10T10:00:00''"
      "''user-9''" "''stylist-1''" "''style-1''" "''2025-03-10T10:00:00''" Date_utc
      1741600800000 1740819600000 "''a4''" "initialAppointments Date_utc ''a1'' ''a2'' ''a3''"]
  by (simp add: createAppointment_def booking_body_def initialAppointments_def Date_utc_def
      conflicts_with_def Let_def)

text \<open>Claim C2 as stated fails: the stored appointment of stylist-1 on 2024-07-15 at 10:00
  is \<open>SCHEDULED\<close>, and a request for that stylist and that time received on 2025-03-01 is
  answered 400 (the date is not in the future), not 409.\<close>

theorem createAppointment_past_conflict_is_400:
  "list_ex (conflicts_with ''stylist-1'' 1721037600000)
      (initialAppointments Date_utc ''a1'' ''a2'' ''a3'')
   \<and> Date_utc ''2024-07-15T10:00:00'' = Some 1721037600000
   \<and> createAppointment Date_utc 1740819600000 ''a4''
        (booking_body ''stylist-1'' ''2024-07-15T10:00:00'')
        (initialAppointments Date_utc ''a1'' ''a2'' ''a3'')
      = (Message 400 ''La fecha de la cita debe ser futura'',
         initialAppointments Date_utc ''a1'' ''a2'' ''a3'')"
  by (simp add: createAppointment_def booking_body_def initialAppointments_def Date_utc_def
      conflicts_with_def)

section \<open>The one-scheduled-appointment-per-slot invariant\<close>

lemma scheduled_slots_append:
  "scheduled_slots (xs @ ys) = scheduled_slots xs @ scheduled_slots ys"
  by (simp add: scheduled_slots_def)

lemma slot_free:
  "find (conflicts_with sid t) apps = None \<Longrightarrow> (sid, Some t) \<notin> set (scheduled_slots apps)"
  by (induction apps) (auto simp: scheduled_slots_def conflicts_with_def split: if_splits)

text \<open>Creation keeps the invariant: it appends only after the availability lookup found
  nothing.\<close>

lemma createAppointment_keeps_invariant:
  assumes "one_scheduled_per_slot apps"
  shows "one_scheduled_per_slot (snd (createAppointment mkDate now new_id body apps))"
proof -
  have "distinct (scheduled_slots (apps @ [a]))"
    if "find (conflicts_with (stylist_id a) t) apps = None" and "appointment_date a = Some t"
    for a t
    using that assms slot_free [of "stylist_id a" t apps]
    by (simp add: scheduled_slots_append one_scheduled_per_slot_def) (simp add: scheduled_slots_def)
  then show ?thesis
    using assms
    by (simp add: createAppointment_def one_scheduled_per_slot_def Let_def split: option.splits)
qed

lemma set_splice1_subset: "set (splice1 i xs) \<subseteq> set xs"
  by (auto simp: splice1_def dest: in_set_takeD in_set_dropD)

lemma splice1_Cons_Suc: "splice1 (Suc i) (x # xs) = x # splice1 i xs"
  by (simp add: splice1_def)

lemma splice1_Cons_0: "splice1 0 (x # xs) = xs"
  by (simp add: splice1_def)

lemma scheduled_slots_splice1:
  "distinct (scheduled_slots apps) \<Longrightarrow> distinct (scheduled_slots (splice1 i apps))"
proof (induction apps arbitrary: i)
  case Nil
  then show ?case by (simp add: splice1_def)
next
  case (Cons a apps)
  show ?case
  proof (cases i)
    case 0
    with Cons.prems show ?thesis
      by (simp add: splice1_Cons_0 scheduled_slots_def split: if_splits)
  next
    case (Suc j)
    have sub: "set (scheduled_slots (splice1 j apps)) \<subseteq> set (scheduled_slots apps)"
      using set_splice1_subset [of j apps] by (auto simp: scheduled_slots_def)
    have d: "distinct (scheduled_slots apps)"
      using Cons.prems by (simp add: scheduled_slots_def split: if_splits)
    have ih: "distinct (scheduled_slots (splice1 j apps))"
      using Cons.IH [OF d] .
    show ?thesis
    proof (cases "status a = SCHEDULED")
      case True
      then have "(stylist_id a, appointment_date a) \<notin> set (scheduled_slots apps)"
        using Cons.prems by (simp add: scheduled_slots_def)
      with sub have "(stylist_id a, appointment_date a) \<notin> set (scheduled_slots (splice1 j apps))"
        by blast
      with True ih Suc show ?thesis
        by (simp add: splice1_Cons_Suc scheduled_slots_def)
    next
      case False
      with ih Suc show ?thesis
        by (simp add: splice1_Cons_Suc scheduled_slots_def)
    qed
  qed
qed

text \<open>Deletion keeps the invariant.\<close>

lemma deleteAppointment_keeps_invariant:
  assumes "one_scheduled_per_slot apps"
  shows "one_scheduled_per_slot (snd (deleteAppointment ident apps))"
  using assms
  by (auto simp: deleteAppointment_def one_scheduled_per_slot_def scheduled_slots_splice1
      split: option.splits)

text \<open>
  Claim C3 does not hold of the code: \<open>updateAppointment\<close> writes the new date and status
  without the availability lookup that \<open>createAppointment\<close> makes. The invariant holds in
  the initial store and is broken after the three requests of \<open>double_booking\<close>: two
  \<open>SCHEDULED\<close> appointments of stylist-1 at 2025-03-10T10:00.
\<close>

theorem updateAppointment_double_books:
  "one_scheduled_per_slot (initialAppointments Date_utc ''a1'' ''a2'' ''a3'')
   \<and> \<not> one_scheduled_per_slot
         (serve Date_utc double_booking (initialAppointments Date_utc ''a1'' ''a2'' ''a3''))"
  by (simp add: one_scheduled_per_slot_def scheduled_slots_def double_booking_def
      booking_body_def move_body_def initialAppointments_def Date_utc_def
      createAppointment_def updateAppointment_def conflicts_with_def Let_def)

section \<open>Order totals\<close>






section \<open>Validation of the order payload\<close>

lemma no_duplicate_products_iff:
  "no_duplicate_products data \<longleftrightarrow> distinct (map oic_product_id (ocr_items data))"
  unfolding no_duplicate_products_def Let_def
  by (metis length_remdups_eq remdups_id_iff_distinct)

lemma parse_result_append_issue:
  "\<exists>i rest. parse_result (xs @ [x]) v = ZodError i rest \<and> x \<in> set (i # rest)"
  by (cases xs) (simp_all add: parse_result_def)

lemma parse_result_Parsed_iff: "parse_result issues v = Parsed w \<longleftrightarrow> issues = [] \<and> w = v"
  by (cases issues) (auto simp: parse_result_def)

lemma parse_result_not_other: "parse_result issues v \<noteq> OtherError"
  by (cases issues) (simp_all add: parse_result_def)

lemma createOrderSchema_duplicates:
  assumes "\<not> distinct (map oic_product_id (ocr_items data))"
  shows "\<exists>i rest. createOrderSchema uuid_ok data = ZodError i rest
           \<and> issue [Key ''items''] ''No puede haber productos duplicados en el pedido''
                 ''custom'' \<in> set (i # rest)"
proof -
  have "\<not> no_duplicate_products data"
    using assms by (simp add: no_duplicate_products_iff)
  then show ?thesis
    unfolding createOrderSchema_def
    using parse_result_append_issue
    by (simp del: append_assoc add: append_assoc [symmetric])
qed

lemma run_route_rejected:
  assumes "m req = Respond n e"
  shows "run_route (m # ms) h req db = (Failure n e, db)"
  using assms by simp

lemma requireAuth_keeps_body:
  "requireAuth verify now req = Next req1 \<Longrightarrow> req_body req1 = req_body req"
  by (auto simp: requireAuth_def Let_def split: option.splits sum.splits if_splits)

text \<open>
  Claim C5. When two items of the payload carry the same product id, the validation
  middleware of \<open>POST /api/orders\<close> answers 400 with the validation envelope (one of its
  errors is the refinement's, on \<open>items\<close>); the route answers before the handler, whatever
  the handler is, and leaves both tables as they were; and for a request that
  \<open>requireAuth\<close>, the first middleware of the route, lets through, the answer of the route
  is that 400 envelope.
\<close>

theorem duplicate_products_rejected:
  assumes "\<not> distinct (map oic_product_id (ocr_items (req_body req)))"
  shows "\<exists>errs. validateBody (createOrderSchema uuid_ok) now req
                   = Respond 400 (validation_failed now errs)
           \<and> list_ex (\<lambda>e. field e = ''items'' \<and> code e = ''custom'') errs
           \<and> (\<exists>n e. \<forall>h. run_route (post_orders_middlewares verify uuid_ok now) h req db
                          = (Failure n e, db))
           \<and> (\<forall>req1. requireAuth verify now req = Next req1 \<longrightarrow>
                 post_orders verify uuid_ok uuid year now req db
                   = (Failure 400 (validation_failed now errs), db))"
proof -
  obtain i rest where z: "createOrderSchema uuid_ok (req_body req) = ZodError i rest"
    and mem: "issue [Key ''items''] ''No puede haber productos duplicados en el pedido''
                ''custom'' \<in> set (i # rest)"
    using createOrderSchema_duplicates [OF assms] by blast
  let ?errs = "formatZodError (i # rest)"
  have v: "validateBody (createOrderSchema uuid_ok) now r = Respond 400 (validation_failed now ?errs)"
    if "req_body r = req_body req" for r
    using z that by (simp add: validateBody_def)
  have ex: "list_ex (\<lambda>e. field e = ''items'' \<and> code e = ''custom'') ?errs"
  proof -
    have "\<lparr> field = ''items'', message = ''No puede haber productos duplicados en el pedido'',
            code = ''custom'', received = None \<rparr> \<in> set ?errs"
      using mem unfolding formatZodError_def
      by (force simp: issue_def image_iff)
    then show ?thesis unfolding list_ex_iff by force
  qed
  have route: "\<exists>n e. \<forall>h. run_route (post_orders_middlewares verify uuid_ok now) h req db
                          = (Failure n e, db)"
  proof (cases "requireAuth verify now req")
    case (Next req1)
    then have "req_body req1 = req_body req" by (rule requireAuth_keeps_body)
    from v [OF this] Next show ?thesis by (simp add: post_orders_middlewares_def)
  next
    case (Respond n e)
    then show ?thesis by (simp add: post_orders_middlewares_def)
  qed
  have auth: "post_orders verify uuid_ok uuid year now req db
                = (Failure 400 (validation_failed now ?errs), db)"
    if "requireAuth verify now req = Next req1" for req1
  proof -
    from that have "req_body req1 = req_body req" by (rule requireAuth_keeps_body)
    from v [OF this] that show ?thesis by (simp add: post_orders_def post_orders_middlewares_def)
  qed
  from v [of req] ex route auth show ?thesis by blast
qed

lemma createOrderSchema_too_many:
  assumes "length (ocr_items data) > 50"
  shows "\<exists>i rest. createOrderSchema uuid_ok data = ZodError i rest
           \<and> issue [Key ''items''] ''El pedido no puede tener mas de 50 items''
                 ''too_big'' \<in> set (i # rest)"
proof -
  obtain pre post where
    "uuidSchema uuid_ok [Key ''customer_id''] (ocr_customer_id data)
        @ items_issues uuid_ok (ocr_items data)
        @ optional (addressSchema [Key ''shipping_address'']) (ocr_shipping_address data)
        @ optional (addressSchema [Key ''billing_address'']) (ocr_billing_address data)
        @ optional (paymentMethodSchema [Key ''payment_method'']) (ocr_payment_method data)
        @ (if no_duplicate_products data then []
           else [issue [Key ''items''] ''No puede haber productos duplicados en el pedido''
                   ''custom''])
      = pre @ issue [Key ''items''] ''El pedido no puede tener mas de 50 items'' ''too_big'' # post"
    using assms by (auto simp: items_issues_def intro: that)
  then show ?thesis
    unfolding createOrderSchema_def
    by (cases pre) (simp_all add: parse_result_def)
qed

lemma createOrderSchema_Parsed_length:
  assumes "createOrderSchema uuid_ok data = Parsed v"
  shows "1 \<le> length (ocr_items data) \<and> length (ocr_items data) \<le> 50
         \<and> ocr_items v = ocr_items data"
  using assms
  by (auto simp: createOrderSchema_def parse_result_Parsed_iff items_issues_def
      split: if_splits)

text \<open>
  Claim C10. A payload that \<open>createOrderSchema\<close> accepts has between 1 and 50 items. A
  payload with more than 50 items is answered 400 by the validation middleware, and the
  route answers before the handler, whatever the handler is, without touching the tables.
\<close>

theorem order_items_between_1_and_50:
  "(createOrderSchema uuid_ok data = Parsed v \<longrightarrow>
      1 \<le> length (ocr_items data) \<and> length (ocr_items data) \<le> 50
      \<and> ocr_items v = ocr_items data)
   \<and> (length (ocr_items (req_body req)) > 50 \<longrightarrow>
        (\<exists>errs. validateBody (createOrderSchema uuid_ok) now req
                   = Respond 400 (validation_failed now errs)
           \<and> list_ex (\<lambda>e. field e = ''items'' \<and> code e = ''too_big'') errs)
        \<and> (\<exists>n e. \<forall>h. run_route (post_orders_middlewares verify uuid_ok now) h req db
                          = (Failure n e, db)))"
proof (intro conjI impI)
  assume "createOrderSchema uuid_ok data = Parsed v"
  then show "1 \<le> length (ocr_items data)" and "length (ocr_items data) \<le> 50"
    and "ocr_items v = ocr_items data"
    using createOrderSchema_Parsed_length by blast+
next
  assume big: "length (ocr_items (req_body req)) > 50"
  obtain i rest where z: "createOrderSchema uuid_ok (req_body req) = ZodError i rest"
    and mem: "issue [Key ''items''] ''El pedido no puede tener mas de 50 items''
                ''too_big'' \<in> set (i # rest)"
    using createOrderSchema_too_many [OF big] by blast
  let ?errs = "formatZodError (i # rest)"
  have v: "validateBody (createOrderSchema uuid_ok) now r = Respond 400 (validation_failed now ?errs)"
    if "req_body r = req_body req" for r
    using z that by (simp add: validateBody_def)
  have "\<lparr> field = ''items'', message = ''El pedido no puede tener mas de 50 items'',
          code = ''too_big'', received = None \<rparr> \<in> set ?errs"
    using mem unfolding formatZodError_def by (force simp: issue_def image_iff)
  then have "list_ex (\<lambda>e. field e = ''items'' \<and> code e = ''too_big'') ?errs"
    unfolding list_ex_iff by force
  with v [of req] show "\<exists>errs. validateBody (createOrderSchema uuid_ok) now req
                   = Respond 400 (validation_failed now errs)
           \<and> list_ex (\<lambda>e. field e = ''items'' \<and> code e = ''too_big'') errs"
    by blast
  show "\<exists>n e. \<forall>h. run_route (post_orders_middlewares verify uuid_ok now) h req db
                          = (Failure n e, db)"
  proof (cases "requireAuth verify now req")
    case (Next req1)
    then have "req_body req1 = req_body req" by (rule requireAuth_keeps_body)
    from v [OF this] Next show ?thesis by (simp add: post_orders_middlewares_def)
  next
    case (Respond n e)
    then show ?thesis by (simp add: post_orders_middlewares_def)
  qed
qed

section \<open>The order properties on examples\<close>

lemmas order_eval = createOrder_def insert_row_def orders_clash_def order_items_clash_def
  order_body_def order_item_def empty_db_def uuid_seq_def or_null_def Let_def
  generateOrderNumber_def show_nat.simps digit_char_def Order.extend_def


lemmas schema_eval = createOrderSchema_def parse_result_def items_issues_def orderItemSchema_def
  uuidSchema_def quantitySchema_def priceSchema_def multipleOf_def is_integer_def optional_def
  no_duplicate_products_def uuid_format_def is_hex_def customer1_def product1_def product2_def
  order_body_def order_item_def order_request_def issue_def Let_def

lemma createOrderSchema_accepts_example: "createOrderSchema uuid_format (order_body [order_item product1 2 (2599 / 100)])
   = Parsed (order_body [order_item product1 2 (2599 / 100)])"
  by (simp add: schema_eval)

lemmas route_eval = post_orders_def post_orders_middlewares_def requireAuth_def bearer_token_def
  verify_good_def validateBody_def validation_failed_def formatZodError_def empty_db_def

text \<open>The payload of the test suite: the same product twice, sent by its customer.\<close>

theorem duplicate_products_rejected_witness:
  "post_orders verify_good uuid_format uuid_seq 2025 1740819600000
     (order_request (Some ''Bearer good'')
        (order_body [order_item product1 2 (2599 / 100), order_item product1 1 (2599 / 100)]))
     empty_db
   = (Failure 400
        (validation_failed 1740819600000
           [\<lparr> field = ''items'',
               message = ''No puede haber productos duplicados en el pedido'',
               code = ''custom'', received = None \<rparr>]),
      empty_db)"
  using duplicate_products_rejected [of
      "order_request (Some ''Bearer good'')
        (order_body [order_item product1 2 (2599 / 100), order_item product1 1 (2599 / 100)])"
      uuid_format 1740819600000 verify_good empty_db uuid_seq 2025]
  by (simp add: schema_eval route_eval)


text \<open>A payload of one item is accepted; one of 51 items is answered 400.\<close>

theorem order_items_between_1_and_50_witness:
  "createOrderSchema uuid_format (order_body [order_item product1 2 (2599 / 100)])
     = Parsed (order_body [order_item product1 2 (2599 / 100)])
   \<and> 1 \<le> length (ocr_items (order_body [order_item product1 2 (2599 / 100)]))
   \<and> length (ocr_items (order_body [order_item product1 2 (2599 / 100)])) \<le> 50
   \<and> (\<exists>errs. validateBody (createOrderSchema uuid_format) 1740819600000
                 (order_request (Some ''Bearer good'')
                    (order_body (replicate 51 (order_item product1 1 1))))
               = Respond 400 (validation_failed 1740819600000 errs)
             \<and> list_ex (\<lambda>e. field e = ''items'' \<and> code e = ''too_big'') errs)
   \<and> (\<exists>n e. \<forall>h. run_route (post_orders_middlewares verify_good uuid_format 1740819600000) h
                     (order_request (Some ''Bearer good'')
                        (order_body (replicate 51 (order_item product1 1 1))))
                     empty_db
                   = (Failure n (e :: ErrorEnvelope), empty_db))"
  using order_items_between_1_and_50 [of uuid_format
      "order_body [order_item product1 2 (2599 / 100)]"
      "order_body [order_item product1 2 (2599 / 100)]"
      "order_request (Some ''Bearer good'') (order_body (replicate 51 (order_item product1 1 1)))"
      1740819600000 verify_good empty_db]
    createOrderSchema_accepts_example
  by (simp add: order_body_def order_request_def)

section \<open>The multi-target validation middleware\<close>





section \<open>Uniqueness checks of the create operations\<close>

lemma find_Some_iff_list: "(\<exists>x. find P xs = Some x) \<longleftrightarrow> list_ex P xs"
  by (induction xs) auto

lemma createReview_checks_key:
  assumes "crb_user_id b = Some uid" and "uid \<noteq> []" and "crb_rating b = Some r"
    and "1 \<le> r" and "r \<le> 5" and "is_integer r" and "crb_comment b = Some c" and "c \<noteq> []"
    and "crb_reviewable_id b = Some rid" and "rid \<noteq> []"
    and "crb_reviewable_type b = Some rt" and "reviewable_of_string rt = Some rtype"
  shows "if list_ex (same_review_key uid rid rtype) reviews
         then createReview now new_id b reviews
                = (Message 409 ''El usuario ya ha resenado esta entidad'', reviews)
         else \<exists>n. createReview now new_id b reviews = (Json 201 n, reviews @ [n])
                \<and> rev_user_id n = uid \<and> reviewable_id n = rid \<and> reviewable_type n = rtype"
proof -
  have rt: "rt \<noteq> []"
    using assms(12) by (auto simp: reviewable_of_string_def)
  have r0: "r \<noteq> 0"
    using assms(4) by auto
  show ?thesis
  proof (cases "find (same_review_key uid rid rtype) reviews")
    case None
    then have "\<not> list_ex (same_review_key uid rid rtype) reviews"
      by (simp add: find_None_iff_list)
    with None assms rt r0 show ?thesis
      by (simp add: createReview_def Let_def)
  next
    case (Some e)
    then have "list_ex (same_review_key uid rid rtype) reviews"
      using find_Some_iff_list [of "same_review_key uid rid rtype" reviews] by auto
    with Some assms rt r0 show ?thesis
      by (simp add: createReview_def)
  qed
qed

lemma createCategory_checks_name:
  "if list_ex (\<lambda>row. cat_name row = ccr_name cd) categories
   then createCategory now new_id cd categories
          = (failure 400 ''Ya existe una categoria con ese nombre'', categories)
   else if list_ex (\<lambda>row. cat_id row = new_id) categories
   then createCategory now new_id cd categories
          = (failure 500 ''Error interno del servidor'', categories)
   else \<exists>n. createCategory now new_id cd categories
              = (Success 201 n ''Categoria creada exitosamente'', categories @ [n])
          \<and> cat_name n = ccr_name cd \<and> cat_id n = new_id"
proof (cases "find (\<lambda>row. cat_name row = ccr_name cd) categories")
  case None
  then have nn: "\<not> list_ex (\<lambda>row. cat_name row = ccr_name cd) categories"
    by (simp add: find_None_iff_list)
  then have clash: "list_ex (categories_clash x) categories
                      \<longleftrightarrow> list_ex (\<lambda>row. cat_id row = new_id) categories"
    if "cat_id x = new_id" and "cat_name x = ccr_name cd" for x
    using that unfolding list_ex_iff categories_clash_def by metis
  from None nn show ?thesis
    by (simp add: createCategory_def getCategoryByName_def addCategory_def insert_row_def
        Let_def clash)
next
  case (Some e)
  then have "list_ex (\<lambda>row. cat_name row = ccr_name cd) categories"
    using find_Some_iff_list [of "\<lambda>row. cat_name row = ccr_name cd" categories] by auto
  with Some show ?thesis
    by (simp add: createCategory_def getCategoryByName_def)
qed

lemma createUser_checks_email:
  "if list_ex (\<lambda>row. usr_email row = cub_email ub \<and> usr_is_active row) users
   then createUser hash now new_id ub users
          = (failure 409 ''El email ya esta registrado'', users)
   else if list_ex (\<lambda>row. usr_id row = new_id \<or> usr_email row = cub_email ub) users
   then createUser hash now new_id ub users
          = (failure 500 ''Error interno del servidor'', users)
   else \<exists>s n. createUser hash now new_id ub users
                = (Success 201 s ''Usuario creado exitosamente'', users @ [n])
            \<and> usr_email n = cub_email ub \<and> usr_id n = new_id \<and> usr_is_active n
            \<and> safe_email s = cub_email ub"
proof (cases "find (\<lambda>row. usr_email row = cub_email ub \<and> usr_is_active row) users")
  case None
  then have nn: "\<not> list_ex (\<lambda>row. usr_email row = cub_email ub \<and> usr_is_active row) users"
    by (simp add: find_None_iff_list)
  have clash: "list_ex (users_clash x) users
                 \<longleftrightarrow> list_ex (\<lambda>row. usr_id row = new_id \<or> usr_email row = cub_email ub) users"
    if "usr_id x = new_id" and "usr_email x = cub_email ub" for x
    using that unfolding list_ex_iff users_clash_def by metis
  from None nn show ?thesis
    by (simp add: createUser_def getUserByEmail_def addUser_def insert_row_def
        Let_def clash User.extend_def)
next
  case (Some e)
  then have "list_ex (\<lambda>row. usr_email row = cub_email ub \<and> usr_is_active row) users"
    using find_Some_iff_list [of "\<lambda>row. usr_email row = cub_email ub \<and> usr_is_active row" users]
    by auto
  with Some show ?thesis
    by (simp add: createUser_def getUserByEmail_def)
qed
text \<open>
  Claim C7, as amended. Each create operation looks the uniqueness key up before it
  inserts, and when the lookup finds a record it rejects and inserts nothing: reviews
  (user id, target id and target type; the body has passed the handler's field checks)
  with 409, users (email, among the active users) with 409, categories (name) with 400.
  When the lookup finds nothing the insert is made: the answer is 201 and the new record
  is appended, unless the \<open>INSERT\<close> itself fails on a duplicate key, which is answered
  500 with the table unchanged.
\<close>

theorem create_checks_uniqueness_key:
  assumes "crb_user_id b = Some uid" and "uid \<noteq> []" and "crb_rating b = Some r"
    and "1 \<le> r" and "r \<le> 5" and "is_integer r" and "crb_comment b = Some c" and "c \<noteq> []"
    and "crb_reviewable_id b = Some rid" and "rid \<noteq> []"
    and "crb_reviewable_type b = Some rt" and "reviewable_of_string rt = Some rtype"
  shows "(if list_ex (same_review_key uid rid rtype) reviews
          then createReview now new_id b reviews
                 = (Message 409 ''El usuario ya ha resenado esta entidad'', reviews)
          else \<exists>n. createReview now new_id b reviews = (Json 201 n, reviews @ [n])
                 \<and> rev_user_id n = uid \<and> reviewable_id n = rid \<and> reviewable_type n = rtype)
       \<and> (if list_ex (\<lambda>row. cat_name row = ccr_name cd) categories
           then createCategory now new_id cd categories
                  = (failure 400 ''Ya existe una categoria con ese nombre'', categories)
           else if list_ex (\<lambda>row. cat_id row = new_id) categories
           then createCategory now new_id cd categories
                  = (failure 500 ''Error interno del servidor'', categories)
           else \<exists>n. createCategory now new_id cd categories
                      = (Success 201 n ''Categoria creada exitosamente'', categories @ [n])
                  \<and> cat_name n = ccr_name cd \<and> cat_id n = new_id)
       \<and> (if list_ex (\<lambda>row. usr_email row = cub_email ub \<and> usr_is_active row) users
           then createUser hash now new_id ub users
                  = (failure 409 ''El email ya esta registrado'', users)
           else if list_ex (\<lambda>row. usr_id row = new_id \<or> usr_email row = cub_email ub) users
           then createUser hash now new_id ub users
                  = (failure 500 ''Error interno del servidor'', users)
           else \<exists>s n. createUser hash now new_id ub users
                        = (Success 201 s ''Usuario creado exitosamente'', users @ [n])
                    \<and> usr_email n = cub_email ub \<and> usr_id n = new_id \<and> usr_is_active n
                    \<and> safe_email s = cub_email ub)"
  using createReview_checks_key [OF assms, of reviews now new_id]
    createCategory_checks_name [of cd categories now new_id]
    createUser_checks_email [of ub users hash now new_id]
  by blast

lemmas create_eval = createReview_def createCategory_def createUser_def getCategoryByName_def
  addCategory_def getUserByEmail_def addUser_def insert_row_def categories_clash_def
  users_clash_def same_review_key_def reviewable_of_string_def is_integer_def or_null_def
  review_body_def category_body_def user_body_def hash_example_def failure_def
  mapRowToUser_def User.extend_def Let_def

text \<open>Each of the three creations succeeds on an empty store and is rejected when it is
  repeated: the review and the user with 409, the category with 400.\<close>

theorem create_checks_uniqueness_key_witness:
  "status_code (fst (createReview 1740819600000 ''r1'' review_body [])) = 201
   \<and> status_code (fst (createReview 1740819600001 ''r2'' review_body
        (snd (createReview 1740819600000 ''r1'' review_body [])))) = 409
   \<and> api_status (fst (createCategory 1740819600000 ''c1'' category_body [])) = 201
   \<and> api_status (fst (createCategory 1740819600001 ''c2'' category_body
        (snd (createCategory 1740819600000 ''c1'' category_body [])))) = 400
   \<and> api_status (fst (createUser hash_example 1740819600000 ''u1'' user_body [])) = 201
   \<and> api_status (fst (createUser hash_example 1740819600001 ''u2'' user_body
        (snd (createUser hash_example 1740819600000 ''u1'' user_body [])))) = 409"
  using create_checks_uniqueness_key [of review_body "''user-duplicate''" 5 "''Primera resena''"
      "''entity-duplicate''" "''STYLIST''" STYLIST "[]" 1740819600000 "''r1''" category_body "[]"
      user_body "[]" hash_example]
  by (simp add: create_eval)

text \<open>Claim C7 as stated fails for categories: creating the category of the test suite a
  second time is answered 400, not 409, and the table keeps its one row.\<close>

theorem createCategory_duplicate_is_400:
  "list_ex (\<lambda>row. cat_name row = ccr_name category_body)
      (snd (createCategory 1740819600000 ''c1'' category_body []))
   \<and> createCategory 1740819600001 ''c2'' category_body
        (snd (createCategory 1740819600000 ''c1'' category_body []))
      = (failure 400 ''Ya existe una categoria con ese nombre'',
         snd (createCategory 1740819600000 ''c1'' category_body []))
   \<and> api_status (fst (createCategory 1740819600001 ''c2'' category_body
        (snd (createCategory 1740819600000 ''c1'' category_body [])))) = 400"
  by (simp add: create_eval)

section \<open>Repeating a partial update\<close>























section \<open>Price schemas\<close>

lemma is_integer_of_int: "is_integer (of_int n)"
  by (simp add: is_integer_def)















section \<open>Appointment date-time schema\<close>

lemma getDay_range: "0 \<le> getDay tz t \<and> getDay tz t \<le> 6"
  by (simp add: getDay_def)

lemma getHours_range: "0 \<le> getHours tz t \<and> getHours tz t \<le> 23"
  by (simp add: getHours_def)

text \<open>The condition under which the schema accepts a string at the clock readings
  \<open>now1\<close> and \<open>now2\<close>.\<close>

lemma appointmentDateSchema_Parsed_iff:
  "appointmentDateSchema iso_datetime mkDate tz now1 now2 path s = Parsed d
     \<longleftrightarrow> iso_datetime s \<and> d = mkDate s
         \<and> (\<exists>t. mkDate s = Some t \<and> now1 + msPerHour \<le> t \<and> t \<le> now2 + 180 * msPerDay
                \<and> 1 \<le> getDay tz t \<and> getDay tz t \<le> 6
                \<and> 8 \<le> getHours tz t \<and> getHours tz t < 18)"
  by (cases "mkDate s")
     (auto simp: appointmentDateSchema_def parse_result_Parsed_iff at_least_one_hour_ahead_def
        at_most_six_months_ahead_def monday_to_saturday_def business_hours_def msPerHour_def
        msPerDay_def Let_def split: if_splits)

lemma appointmentDateSchema_rejects:
  assumes "\<not> (\<exists>d. appointmentDateSchema iso_datetime mkDate tz now1 now2 path s = Parsed d)"
  shows "\<exists>i rest. appointmentDateSchema iso_datetime mkDate tz now1 now2 path s = ZodError i rest"
proof (cases "appointmentDateSchema iso_datetime mkDate tz now1 now2 path s")
  case (Parsed d)
  with assms show ?thesis by blast
next
  case (ZodError i rest)
  then show ?thesis by blast
next
  case OtherError
  then show ?thesis
    by (simp add: appointmentDateSchema_def parse_result_not_other)
qed

text \<open>
  Claim C4, as amended. A string is accepted by the appointment date-time schema exactly
  when it has the date-time format, its \<open>Date\<close> is valid, lies at least one hour after
  the clock reading of the first refinement and at most 180 days (six months of 30 days)
  after the clock reading of the second, falls on a Monday to Saturday in local time and
  has a local hour in [8, 18); the normalized value is that \<open>Date\<close>. Every other string
  is rejected with a \<open>ZodError\<close>.
\<close>

theorem appointmentDateSchema_accepts_iff:
  "(appointmentDateSchema iso_datetime mkDate tz now1 now2 path s = Parsed d
      \<longleftrightarrow> iso_datetime s \<and> d = mkDate s
          \<and> (\<exists>t. mkDate s = Some t \<and> now1 + msPerHour \<le> t \<and> t \<le> now2 + 180 * msPerDay
                 \<and> 1 \<le> getDay tz t \<and> getDay tz t \<le> 6
                 \<and> 8 \<le> getHours tz t \<and> getHours tz t < 18))
   \<and> ((\<exists>d'. appointmentDateSchema iso_datetime mkDate tz now1 now2 path s = Parsed d')
       \<or> (\<exists>i rest. appointmentDateSchema iso_datetime mkDate tz now1 now2 path s
                      = ZodError i rest))"
  using appointmentDateSchema_Parsed_iff [of iso_datetime mkDate tz now1 now2 path s d]
    appointmentDateSchema_rejects [of iso_datetime mkDate tz now1 now2 path s]
  by blast

lemmas date_eval = appointmentDateSchema_def parse_result_def at_least_one_hour_ahead_def
  at_most_six_months_ahead_def monday_to_saturday_def business_hours_def getDay_def
  getHours_def LocalTime_def msPerDay_def msPerHour_def utc_def Date_iso_def
  iso_utc_format_def is_digit_def issue_def Let_def

text \<open>On 2025-03-01 at 09:00 UTC, on a server in UTC: Monday 10 March at 10:00 is
  accepted, Sunday 9 March at 10:00 and Monday 10 March at 07:30 are rejected.\<close>

theorem appointmentDateSchema_accepts_iff_witness:
  "appointmentDateSchema iso_utc_format Date_iso utc 1740819600000 1740819600000
       [Key ''appointment_date''] ''2025-03-10T10:00:00Z'' = Parsed (Some 1741600800000)
   \<and> getDay utc 1741600800000 = 1 \<and> getHours utc 1741600800000 = 10
   \<and> appointmentDateSchema iso_utc_format Date_iso utc 1740819600000 1740819600000
       [Key ''appointment_date''] ''2025-03-09T10:00:00Z''
       \<noteq> Parsed (Date_iso ''2025-03-09T10:00:00Z'')
   \<and> getDay utc 1741514400000 = 0
   \<and> appointmentDateSchema iso_utc_format Date_iso utc 1740819600000 1740819600000
       [Key ''appointment_date''] ''2025-03-10T07:30:00Z''
       \<noteq> Parsed (Date_iso ''2025-03-10T07:30:00Z'')
   \<and> getHours utc 1741591800000 = 7"
  using appointmentDateSchema_accepts_iff [of iso_utc_format Date_iso utc 1740819600000
      1740819600000 "[Key ''appointment_date'']" "''2025-03-10T10:00:00Z''" "Some 1741600800000"]
  by (simp add: date_eval)

text \<open>Claim C4 as stated fails at the lower bound: at 09:00:00 UTC on Monday 10 March 2025
  the string for 10:00:00 of that day is accepted, and it is one hour ahead, not more.\<close>

theorem appointmentDateSchema_accepts_exactly_one_hour:
  "appointmentDateSchema iso_utc_format Date_iso utc 1741597200000 1741597200000
       [Key ''appointment_date''] ''2025-03-10T10:00:00Z'' = Parsed (Some 1741600800000)
   \<and> (1741600800000 :: int) = 1741597200000 + msPerHour
   \<and> \<not> (1741600800000 :: int) > 1741597200000 + msPerHour"
  by (simp add: date_eval)

end
